theory Spec2Isabelle
  imports Complex_Main "HOL-Library.Word" "HOL-Library.Log_Nat"
begin

section \<open>VoiceBuddy: the practice-session pipeline of voicebuddy_app.py\<close>

text \<open>
  The class \<open>VoiceBuddyAI\<close> is embedded by explicit state passing. The fields the
  pipeline reads and writes form the record \<open>app\<close>; every method takes the state and
  returns the new state together with the list of effects it performs on its
  collaborators (message boxes, widget updates, threads started, callbacks posted with
  \<open>root.after\<close>, console output). Exceptions are values of type \<open>error\<close>.
  Python strings are lists of characters with code points below 256.
\<close>

subsection \<open>Python string operations\<close>

definition is_space :: "char \<Rightarrow> bool" where
  \<comment> \<open>\<open>str.isspace\<close> on one character\<close>
  "is_space c = (let n = (of_char c :: nat) in
     (9 \<le> n \<and> n \<le> 13) \<or> (28 \<le> n \<and> n \<le> 32) \<or> n = 133 \<or> n = 160)"

definition lower_char :: "char \<Rightarrow> char" where
  \<comment> \<open>\<open>str.lower\<close> on one character\<close>
  "lower_char c = (let n = (of_char c :: nat) in
     if (65 \<le> n \<and> n \<le> 90) \<or> (192 \<le> n \<and> n \<le> 222 \<and> n \<noteq> 215)
     then char_of (n + 32) else c)"

definition py_lower :: "string \<Rightarrow> string" where
  "py_lower s = map lower_char s"

definition py_strip :: "string \<Rightarrow> string" where
  "py_strip s = rev (dropWhile is_space (rev (dropWhile is_space s)))"

fun py_split_from :: "string \<Rightarrow> string \<Rightarrow> string list" where
  "py_split_from w [] = (if w = [] then [] else [w])"
| "py_split_from w (c # cs) =
     (if is_space c
      then (if w = [] then py_split_from [] cs else w # py_split_from [] cs)
      else py_split_from (w @ [c]) cs)"

definition py_split :: "string \<Rightarrow> string list" where
  \<comment> \<open>\<open>s.split()\<close>: the maximal runs of non-whitespace characters\<close>
  "py_split s = py_split_from [] s"

fun starts_with :: "string \<Rightarrow> string \<Rightarrow> bool" where
  "starts_with [] s = True"
| "starts_with (p # ps) [] = False"
| "starts_with (p # ps) (c # cs) = (p = c \<and> starts_with ps cs)"

fun py_in :: "string \<Rightarrow> string \<Rightarrow> bool" where
  \<comment> \<open>\<open>sub in s\<close> on strings\<close>
  "py_in sub [] = (sub = [])"
| "py_in sub (c # cs) = (starts_with sub (c # cs) \<or> py_in sub cs)"

subsection \<open>Data\<close>

datatype error =
    KeyError string
  | IndexError
  | FileNotFoundError
  | OSError string
  | JSONDecodeError
  | LoadModelError string
  | AudioError string
  | AttributeError string
  | NameError string
  | ZeroDivisionError
  | OverflowError

datatype json =
    JNull | JBool bool | JNum int | JStr string
  | JArr "json list" | JObj "(string \<times> json) list"

record user_data =
  sessions :: "json list"
  scores :: "int list"
  total_sessions :: int
  best_score :: int

type_synonym settings = "string \<rightharpoonup> string"

datatype model = Model string

type_synonym frame = "8 word list"

record phrase_data =
  phrase :: string
  explanation :: string

record app =
  user_data :: user_data
  settings :: settings
  whisper_model :: "model option"
  current_phrase :: string
  current_context :: string
  is_recording :: bool
  audio_frames :: "frame list"

text \<open>
  The two persisted files. Reading an absent file raises \<open>FileNotFoundError\<close>; a file
  that cannot be opened or decoded raises the error it carries. Opening a file for
  writing may raise (\<open>data_write\<close>, \<open>settings_write\<close>).
\<close>

datatype 'a stored = Absent | Broken error | Holds 'a

record filesystem =
  data_store :: "user_data stored"
  settings_store :: "settings stored"
  data_write :: "error option"
  settings_write :: "error option"

datatype task = GeneratePhraseThread | RecordThread | SpeakThread

datatype callback =
    UpdatePhraseUI phrase_data
  | RecordingErrorBox

datatype stat_value = StrOf int | PercentOf int | Percent1fOf rat

datatype look = StopRecordingLook | GeneratingLook | GenerateReadyLook | LoadingNewModelLook

datatype effect =
    ShowWarning string string
  | ConfigRecordBtn look
  | ConfigGenerateBtn look
  | ConfigModelStatusLabel look
  | SetPhraseText string
  | SetContextText string
  | StartThread task
  | After nat callback
  | Print string
  | PrintError string error
  | Uncaught error
  | ClearStatsFrame
  | StatCard string stat_value

subsection \<open>Loading and saving\<close>

definition default_user_data :: user_data where
  "default_user_data = \<lparr>sessions = [], scores = [], total_sessions = 0, best_score = 0\<rparr>"

definition default_settings :: settings where
  "default_settings =
     [''focus_area'' \<mapsto> ''general'',
      ''difficulty_level'' \<mapsto> ''beginner'',
      ''topic_interest'' \<mapsto> '''',
      ''phrase_length'' \<mapsto> ''medium'',
      ''whisper_model_size'' \<mapsto> ''base'']"

definition read_or_default :: "'a stored \<Rightarrow> 'a \<Rightarrow> error + 'a" where
  \<comment> \<open>one \<open>try: json.load(open(f)) except FileNotFoundError: default\<close> block\<close>
  "read_or_default f d = (case f of Absent \<Rightarrow> Inr d | Broken e \<Rightarrow> Inl e | Holds v \<Rightarrow> Inr v)"

definition load_data :: "filesystem \<Rightarrow> error + (user_data \<times> settings)" where
  "load_data fs =
     (case read_or_default (data_store fs) default_user_data of
        Inl e \<Rightarrow> Inl e
      | Inr ud \<Rightarrow>
          (case read_or_default (settings_store fs) default_settings of
             Inl e \<Rightarrow> Inl e
           | Inr st \<Rightarrow> Inr (ud, st)))"

definition save_data :: "app \<Rightarrow> filesystem \<Rightarrow> filesystem \<times> effect list" where
  "save_data s fs =
     (case data_write fs of
        Some e \<Rightarrow> (fs, [PrintError ''Error saving data: '' e])
      | None \<Rightarrow>
          (let fs1 = fs\<lparr>data_store := Holds (user_data s)\<rparr> in
           case settings_write fs of
             Some e \<Rightarrow> (fs1, [PrintError ''Error saving data: '' e])
           | None \<Rightarrow> (fs1\<lparr>settings_store := Holds (settings s)\<rparr>, [])))"

definition load_whisper_model :: "(string \<Rightarrow> error + model) \<Rightarrow> app \<Rightarrow> app \<times> effect list" where
  \<comment> \<open>\<open>load\<close> is \<open>whisper.load_model\<close>, an external function\<close>
  "load_whisper_model load s =
     (let model_size = (case settings s ''whisper_model_size'' of
                          None \<Rightarrow> ''base'' | Some v \<Rightarrow> v)
      in case load model_size of
           Inr m \<Rightarrow> (s\<lparr>whisper_model := Some m\<rparr>,
                     [Print ''Loading Whisper model... This may take a moment on first run.'',
                      Print (''Whisper model '' @ [CHR 0x27] @ model_size @ [CHR 0x27] @
                             '' loaded successfully!'')])
         | Inl e \<Rightarrow> (s\<lparr>whisper_model := None\<rparr>,
                     [Print ''Loading Whisper model... This may take a moment on first run.'',
                      PrintError ''Error loading Whisper model: '' e]))"

definition update_setting ::
  "bool \<Rightarrow> (string \<Rightarrow> error + model) \<Rightarrow> string \<Rightarrow> string \<Rightarrow> app \<times> filesystem
     \<Rightarrow> (app \<times> filesystem) \<times> effect list" where
  \<comment> \<open>the first argument is the module constant \<open>SPEECH_AVAILABLE\<close>\<close>
  "update_setting speech_available load key val w =
     (let s = fst w; fs = snd w;
          s1 = s\<lparr>settings := (settings s)(key \<mapsto> val)\<rparr>;
          r = (if key = ''whisper_model_size'' \<and> speech_available
               then (let l = load_whisper_model load (s1\<lparr>whisper_model := None\<rparr>)
                     in (fst l, ConfigModelStatusLabel LoadingNewModelLook # snd l))
               else (s1, []));
          sv = save_data (fst r) fs
      in ((fst r, fst sv), snd r @ snd sv))"







subsection \<open>Recording\<close>

definition start_recording :: "app \<Rightarrow> app \<times> effect list" where
  "start_recording s =
     (s\<lparr>is_recording := True, audio_frames := []\<rparr>,
      [ConfigRecordBtn StopRecordingLook, StartThread RecordThread])"

definition stop_recording :: "app \<Rightarrow> app \<times> effect list" where
  "stop_recording s = (s\<lparr>is_recording := False\<rparr>, [])"

definition toggle_recording :: "bool \<Rightarrow> app \<Rightarrow> app \<times> effect list" where
  "toggle_recording speech_available s =
     (if \<not> speech_available then
        (s, [ShowWarning ''Feature Unavailable''
               ''Speech recognition not available. Please install openai-whisper and pyaudio.''])
      else if whisper_model s = None then
        (s, [ShowWarning ''Model Loading''
               ''Whisper model is still loading. Please wait a moment.''])
      else if current_phrase s = [] then
        (s, [ShowWarning ''No Phrase'' ''Please generate a phrase first!''])
      else if \<not> is_recording s then start_recording s
      else stop_recording s)"

text \<open>
  The body of the thread started by \<open>start_recording\<close>, one step at a time: opening
  the stream, the test of \<open>while self.is_recording\<close>, the read of one chunk with the
  append that follows it, and the exit. The first argument is what the audio device
  answers at this step (the opened stream, the chunk read, or the stream closed), an
  error when the call raises; the test alone, when it succeeds, asks nothing of the
  device. The thread shares \<open>is_recording\<close> and \<open>audio_frames\<close> with the interface
  thread, so the caller interleaves these steps with the commands: the read blocks
  between the test and the append, and the append does not test \<open>is_recording\<close> again.

  The class defines neither \<open>process_recording_with_whisper\<close> nor
  \<open>reset_record_button\<close>. Looking either of them up raises \<open>AttributeError\<close>: the first
  inside the \<open>try\<close> block, which hands it to the \<open>except\<close> block, the second inside the
  \<open>except\<close> block itself, which ends the thread. The error box is posted before that;
  it is a lambda that reads the variable \<open>e\<close> of the \<open>except\<close> block, which is unbound
  once the block has been left.
\<close>

datatype rec_pc = RecOpening | RecTesting | RecReading | RecExited

definition record_failed :: "error \<Rightarrow> effect list" where
  \<comment> \<open>the \<open>except Exception as e\<close> block of \<open>record\<close>\<close>
  "record_failed e =
     [PrintError ''Recording error: '' e,
      After 0 RecordingErrorBox,
      Uncaught (AttributeError ''reset_record_button'')]"

fun record_step :: "error + frame \<Rightarrow> rec_pc \<Rightarrow> app \<Rightarrow> rec_pc \<times> app \<times> effect list" where
  "record_step dev RecOpening s =
     (case dev of
        Inl e \<Rightarrow> (RecExited, s, record_failed e)
      | Inr _ \<Rightarrow> (RecTesting, s, [Print ''Recording started...'']))"
| "record_step dev RecTesting s =
     (if is_recording s then (RecReading, s, [])
      else
        (case dev of
           Inl e \<Rightarrow> (RecExited, s, record_failed e)
         | Inr _ \<Rightarrow>
             (RecExited, s,
              Print ''Recording finished'' #
              (if audio_frames s \<noteq> []
               then record_failed (AttributeError ''process_recording_with_whisper'')
               else []))))"
| "record_step dev RecReading s =
     (case dev of
        Inl e \<Rightarrow> (RecExited, s, record_failed e)
      | Inr data \<Rightarrow> (RecTesting, s\<lparr>audio_frames := audio_frames s @ [data]\<rparr>, []))"
| "record_step dev RecExited s = (RecExited, s, [])"

subsection \<open>Phrase generation\<close>

definition choice :: "'a list \<Rightarrow> nat \<Rightarrow> error + 'a" where
  \<comment> \<open>\<open>random.choice\<close>; \<open>r\<close> is the number drawn, any index can come out\<close>
  "choice xs r = (if xs = [] then Inl IndexError else Inr (xs ! (r mod length xs)))"

definition focus_areas :: "(string \<times> string) list" where
  "focus_areas =
     [(''general'', ''balanced practice with common words''),
      (''pronunciation'', ''challenging consonant and vowel combinations''),
      (''articulation'', ''clear enunciation of difficult sounds''),
      (''fluency'', ''smooth flowing sentences with natural rhythm''),
      (''consonants'', ''emphasis on consonant clarity''),
      (''vowels'', ''vowel sound differentiation''),
      (''tongue_twisters'', ''alliterative phrases for agility'')]"

definition general_phrases :: "string list" where
  "general_phrases =
     [''The bright morning sun shines through the window.'',
      ''Children laughed as they played in the garden.'',
      ''Technology helps us connect with people worldwide.'']"

definition sample_phrases :: "(string \<times> string list) list" where
  "sample_phrases =
     [(''general'', general_phrases),
      (''pronunciation'',
       [''Thirty-three thousand feathers fell from fifty birds.'',
        ''The sixth sick sheik's sixth sheep's sick.'',
        ''How much wood would a woodchuck chuck if a woodchuck could chuck wood?'']),
      (''articulation'',
       [''Red leather, yellow leather, red leather, yellow leather.'',
        ''Unique New York, unique New York, you know you need unique New York.'',
        ''The lips, the teeth, the tip of the tongue.'']),
      (''fluency'',
       [''The rain in Spain stays mainly in the plain, creating beautiful patterns across the landscape.'',
        ''A successful speech requires proper breathing, clear articulation, and confident delivery.'',
        ''Modern communication technology bridges distances but cannot replace personal connections.'']),
      (''consonants'',
       [''Betty bought some butter but the butter was bitter, so Betty bought some better butter.'',
        ''Six thick thistle sticks stood still in the thick mist.'',
        ''The quick brown fox jumps over the lazy dog's back.'']),
      (''vowels'',
       [''How now brown cow, eating grass beneath the bough.'',
        ''The owl hooted through the cool blue moon above the zoo.'',
        ''Each peach piece teaches speech through reach and beat.'']),
      (''tongue_twisters'',
       [''Sally sells seashells by the seashore, surely she shall see some shells soon.'',
        ''Rubber baby buggy bumpers bounce brightly by the bay.'',
        ''Fuzzy wuzzy was a bear, fuzzy wuzzy had no hair, fuzzy wuzzy wasn't fuzzy, was he?''])]"

definition topic_phrases :: "(string \<times> string list) list" where
  "topic_phrases =
     [(''animals'',
       [''The playful dolphins dance through the sparkling ocean waves.'',
        ''Majestic elephants trumpeted loudly across the African savanna.'',
        ''Colorful butterflies flutter gracefully among the blooming flowers.'']),
      (''technology'',
       [''Artificial intelligence transforms how we process information daily.'',
        ''Smartphones connect people instantly across vast global distances.'',
        ''Virtual reality creates immersive experiences beyond imagination.'']),
      (''sports'',
       [''Athletes train rigorously to achieve peak physical performance.'',
        ''The basketball bounced rhythmically against the gymnasium floor.'',
        ''Swimming strengthens muscles while improving cardiovascular health.''])]"

definition base_phrases :: "string \<Rightarrow> string list" where
  \<comment> \<open>\<open>sample_phrases.get(focus, sample_phrases['general'])\<close>\<close>
  "base_phrases focus =
     (case map_of sample_phrases focus of Some ps \<Rightarrow> ps | None \<Rightarrow> general_phrases)"

definition length_filter :: "string \<Rightarrow> string list \<Rightarrow> string list" where
  "length_filter pl phrases =
     (if pl = ''short'' then filter (\<lambda>p. length (py_split p) < 8) phrases
      else if pl = ''long'' then filter (\<lambda>p. length (py_split p) > 12) phrases
      else phrases)"

definition candidate_phrases :: "string \<Rightarrow> string \<Rightarrow> string list" where
  \<comment> \<open>the list \<open>phrases\<close> handed to the first \<open>random.choice\<close>\<close>
  "candidate_phrases focus pl =
     (let phrases = length_filter pl (base_phrases focus)
      in if phrases = [] then general_phrases else phrases)"

fun pick_topic :: "(string \<times> string list) list \<Rightarrow> string \<Rightarrow> string list option" where
  \<comment> \<open>the \<open>for topic, topic_phrase_list in topic_phrases.items()\<close> loop up to its \<open>break\<close>\<close>
  "pick_topic [] topic_interest = None"
| "pick_topic ((topic, topic_phrase_list) # rest) topic_interest =
     (if py_in (py_lower topic) (py_lower topic_interest) then Some topic_phrase_list
      else pick_topic rest topic_interest)"

definition call_ai_api_for_phrase :: "settings \<Rightarrow> nat \<Rightarrow> nat \<Rightarrow> error + phrase_data" where
  \<comment> \<open>\<open>r1\<close>, \<open>r2\<close>: the numbers drawn by the two calls of \<open>random.choice\<close>\<close>
  "call_ai_api_for_phrase st r1 r2 =
     (case st ''focus_area'' of
        None \<Rightarrow> Inl (KeyError ''focus_area'')
      | Some focus \<Rightarrow>
     (case st ''phrase_length'' of
        None \<Rightarrow> Inl (KeyError ''phrase_length'')
      | Some pl \<Rightarrow>
     (case choice (candidate_phrases focus pl) r1 of
        Inl e \<Rightarrow> Inl e
      | Inr first_pick \<Rightarrow>
     (let topic_interest =
            py_strip (case st ''topic_interest'' of None \<Rightarrow> [] | Some t \<Rightarrow> t)
      in
     (case (if topic_interest \<noteq> [] then
              (case pick_topic topic_phrases topic_interest of
                 None \<Rightarrow> Inr first_pick
               | Some topic_phrase_list \<Rightarrow> choice topic_phrase_list r2)
            else Inr first_pick) of
        Inl e \<Rightarrow> Inl e
      | Inr selected_phrase \<Rightarrow>
     (case st ''difficulty_level'' of
        None \<Rightarrow> Inl (KeyError ''difficulty_level'')
      | Some difficulty \<Rightarrow>
          Inr \<lparr>phrase = selected_phrase,
               explanation =
                 ''This phrase focuses on '' @
                 (case map_of focus_areas focus of
                    Some d \<Rightarrow> d | None \<Rightarrow> ''general practice'') @
                 '' at '' @ difficulty @ '' level.'' @
                 (if topic_interest \<noteq> []
                  then '' Customized for your interest in '' @ topic_interest @ ''.''
                  else [])\<rparr>))))))"

definition fallback_phrases :: "(string \<times> string) list" where
  "fallback_phrases =
     [(''The quick brown fox jumps over the lazy dog.'',
       ''Classic pangram for practicing all letters.''),
      (''She sells seashells by the seashore.'',
       ''Great for practicing 'sh' and 's' sounds.''),
      (''Peter Piper picked a peck of pickled peppers.'',
       ''Excellent alliteration practice.'')]"

definition generate_phrase_thread :: "settings \<Rightarrow> nat \<Rightarrow> nat \<Rightarrow> nat \<Rightarrow> effect list" where
  \<comment> \<open>\<open>_generate_phrase_thread\<close>; it reads \<open>self.settings\<close> when it runs\<close>
  "generate_phrase_thread st r1 r2 r3 =
     (case call_ai_api_for_phrase st r1 r2 of
        Inr phrase_data \<Rightarrow> [After 0 (UpdatePhraseUI phrase_data)]
      | Inl e \<Rightarrow>
          PrintError ''Error generating phrase: '' e #
          (case choice fallback_phrases r3 of
             Inl e' \<Rightarrow> [Uncaught e']
           | Inr pc \<Rightarrow>
               [After 0 (UpdatePhraseUI \<lparr>phrase = fst pc, explanation = snd pc\<rparr>)]))"

definition generate_ai_phrase :: "app \<Rightarrow> app \<times> effect list" where
  "generate_ai_phrase s = (s, [ConfigGenerateBtn GeneratingLook, StartThread GeneratePhraseThread])"

definition update_phrase_ui :: "phrase_data \<Rightarrow> app \<Rightarrow> app \<times> effect list" where
  "update_phrase_ui pd s =
     (s\<lparr>current_phrase := phrase pd, current_context := explanation pd\<rparr>,
      [SetPhraseText (phrase pd),
       SetContextText (''Why this phrase: '' @ explanation pd),
       ConfigGenerateBtn GenerateReadyLook])"

definition run_callback :: "callback \<Rightarrow> app \<Rightarrow> app \<times> effect list" where
  \<comment> \<open>what the event loop does with a callback posted by \<open>root.after\<close>\<close>
  "run_callback cb s =
     (case cb of
        UpdatePhraseUI pd \<Rightarrow> update_phrase_ui pd s
      | RecordingErrorBox \<Rightarrow> (s, [Uncaught (NameError ''e'')]))"

definition phrase_tables :: "string list" where
  \<comment> \<open>every phrase that phrase generation can hand to \<open>update_phrase_ui\<close>\<close>
  "phrase_tables =
     concat (map snd sample_phrases) @ concat (map snd topic_phrases) @
     map fst fallback_phrases"

definition starts_with_letter :: "string \<Rightarrow> bool" where
  "starts_with_letter p =
     (case p of
        [] \<Rightarrow> False
      | c # _ \<Rightarrow> (let n = (of_char c :: nat) in (65 \<le> n \<and> n \<le> 90) \<or> (97 \<le> n \<and> n \<le> 122)))"

subsection \<open>Scorer\<close>

text \<open>
  Modelled from the spec: the Scorer (section 4.3). The source file ends after
  \<open>stop_recording\<close>; the function that scores a transcript is not part of it.
  Punctuation is the set of ASCII punctuation characters.
\<close>

definition is_punct :: "char \<Rightarrow> bool" where
  "is_punct c = (let n = (of_char c :: nat) in
     (33 \<le> n \<and> n \<le> 47) \<or> (58 \<le> n \<and> n \<le> 64) \<or> (91 \<le> n \<and> n \<le> 96) \<or>
     (123 \<le> n \<and> n \<le> 126))"

text \<open>
  Modelled from the spec: "normalize both to lowercase word sequences stripped of
  punctuation".
\<close>

definition normalize :: "string \<Rightarrow> string list" where
  "normalize s = py_split (filter (\<lambda>c. \<not> is_punct c) (py_lower s))"

text \<open>
  Modelled from the spec: the number of matched words is the length of a longest common
  subsequence of the two word sequences.
\<close>

fun lcs :: "'a list \<Rightarrow> 'a list \<Rightarrow> nat" where
  "lcs [] ys = 0"
| "lcs (x # xs) [] = 0"
| "lcs (x # xs) (y # ys) =
     (if x = y then Suc (lcs xs ys) else max (lcs xs (y # ys)) (lcs (x # xs) ys))"

text \<open>
  Modelled from the spec: "Percentage = (count of matched words / count of words in
  target phrase) x 100, rounded to the nearest integer, clamped to [0, 100]". Halves are
  rounded up. An empty transcript matches no word, which gives the 0 that the spec lists
  as an edge case. For a target without words the ratio is undefined, and the spec's
  sentences disagree on the value (0 for an empty transcript, 100 for an identical one);
  the Scorer returns some percentage there, the parameter \<open>wordless\<close>.
\<close>

definition scorer :: "int \<Rightarrow> string \<Rightarrow> string \<Rightarrow> int" where
  "scorer wordless target transcript =
     (let tw = normalize target; hw = normalize transcript;
          n = int (length tw); m = int (lcs tw hw)
      in if tw = [] then wordless
         else min 100 (max 0 ((200 * m + n) div (2 * n))))"

text \<open>Two strings are equal up to letter case and punctuation.\<close>

definition same_up_to_case_punct :: "string \<Rightarrow> string \<Rightarrow> bool" where
  "same_up_to_case_punct a b =
     (py_lower (filter (\<lambda>c. \<not> is_punct c) a) = py_lower (filter (\<lambda>c. \<not> is_punct c) b))"

subsection \<open>Concrete states used in the examples\<close>

definition stored_profile :: user_data where
  "stored_profile = \<lparr>sessions = [], scores = [60, 80, 100], total_sessions = 3, best_score = 100\<rparr>"

definition ready_app :: app where
  \<comment> \<open>a phrase is shown, the model is loaded, nothing is being recorded\<close>
  "ready_app =
     \<lparr>user_data = stored_profile, settings = default_settings,
      whisper_model = Some (Model ''base''),
      current_phrase = ''She sells seashells by the seashore.'',
      current_context = ''Great for practicing 'sh' and 's' sounds.'',
      is_recording = False, audio_frames = []\<rparr>"

definition unloaded_app :: app where
  \<comment> \<open>as \<open>ready_app\<close>, with no model loaded\<close>
  "unloaded_app = ready_app\<lparr>whisper_model := None\<rparr>"

definition chunk_a :: frame where
  "chunk_a = [1, 2, 3, 4]"

definition chunk_b :: frame where
  "chunk_b = [5, 6, 7, 8]"

definition recording_app :: app where
  \<comment> \<open>a recording is in progress and one chunk has been captured\<close>
  "recording_app = ready_app\<lparr>is_recording := True, audio_frames := [chunk_a]\<rparr>"

definition empty_disk :: filesystem where
  \<comment> \<open>neither file exists; both can be written\<close>
  "empty_disk =
     \<lparr>data_store = Absent, settings_store = Absent, data_write = None, settings_write = None\<rparr>"

definition incomplete_settings :: settings where
  \<comment> \<open>a settings file that holds only the model size\<close>
  "incomplete_settings = [''whisper_model_size'' \<mapsto> ''base'']"


text \<open>
  A run in which the record button is pressed three times while the first record thread
  waits for a chunk: start (thread 1, which opens the stream, passes the test and blocks
  in the read), stop, start again (thread 2), and then the read of thread 1 returns.
\<close>

definition race_started :: app where
  "race_started = fst (toggle_recording True ready_app)"

definition race_stopped :: app where
  "race_stopped = fst (toggle_recording True race_started)"

definition race_restarted :: app where
  "race_restarted = fst (toggle_recording True race_stopped)"

definition race_late_chunk :: app where
  "race_late_chunk = fst (snd (record_step (Inr chunk_b) RecReading race_restarted))"





section \<open>Properties\<close>

subsection \<open>Shared facts\<close>

lemmas example_states =
  ready_app_def unloaded_app_def recording_app_def stored_profile_def

lemma choice_member:
  "xs \<noteq> [] \<Longrightarrow> \<exists>x \<in> set xs. choice xs r = Inr x"
  by (simp add: choice_def)





lemma length_filter_subset: "set (length_filter pl ps) \<subseteq> set ps"
  by (auto simp: length_filter_def)


lemma pick_topic_from_table:
  "pick_topic tbl ti = Some ps \<Longrightarrow> \<exists>k. (k, ps) \<in> set tbl"
  by (induction tbl ti rule: pick_topic.induct) (auto split: if_splits)

lemma lcs_same: "lcs xs xs = length xs"
  by (induction xs) simp_all

lemma is_punct_lower_char: "is_punct (lower_char c) = is_punct c"
  unfolding is_punct_def lower_char_def Let_def by auto

lemma strip_punct_lower:
  "filter (\<lambda>c. \<not> is_punct c) (py_lower s) = py_lower (filter (\<lambda>c. \<not> is_punct c) s)"
  unfolding py_lower_def by (induction s) (simp_all add: is_punct_lower_char)

lemma normalize_same:
  "same_up_to_case_punct a b \<Longrightarrow> normalize a = normalize b"
  by (simp add: same_up_to_case_punct_def normalize_def strip_punct_lower)

lemma full_match_percentage:
  fixes n :: int
  assumes "0 < n"
  shows "(200 * n + n) div (2 * n) = 100"
proof -
  have "200 * n + n = 201 * n" by simp
  moreover have "(201 * n) div (2 * n) = 201 div 2"
    using assms by (simp only: div_mult_mult2) 
  ultimately show ?thesis by simp
qed

lemma choice_result_member: "choice xs r = Inr x \<Longrightarrow> x \<in> set xs"
  by (auto simp: choice_def split: if_splits)

lemma split_from_word: "w \<noteq> [] \<Longrightarrow> py_split_from w s \<noteq> []"
  by (induction s arbitrary: w) auto

lemma normalize_starts_with_letter:
  assumes "starts_with_letter p"
  shows "normalize p \<noteq> []"
proof -
  from assms obtain c cs where p: "p = c # cs"
    and c: "(65 \<le> (of_char c :: nat) \<and> (of_char c :: nat) \<le> 90) \<or>
            (97 \<le> (of_char c :: nat) \<and> (of_char c :: nat) \<le> 122)"
    by (cases p) (auto simp: starts_with_letter_def Let_def)
  from c have keep: "\<not> is_punct (lower_char c)" and word: "\<not> is_space (lower_char c)"
    unfolding is_punct_def is_space_def lower_char_def Let_def by auto
  have "normalize p =
      py_split_from [lower_char c] (filter (\<lambda>c. \<not> is_punct c) (py_lower cs))"
    using keep word by (simp add: p normalize_def py_lower_def py_split_def)
  then show ?thesis by (simp add: split_from_word)
qed

lemma phrase_tables_start_with_letters: "list_all starts_with_letter phrase_tables"
  by (simp add: phrase_tables_def sample_phrases_def general_phrases_def topic_phrases_def
      fallback_phrases_def starts_with_letter_def)

lemma phrase_tables_have_words:
  assumes "p \<in> set phrase_tables"
  shows "normalize p \<noteq> []"
proof -
  from assms phrase_tables_start_with_letters have "starts_with_letter p"
    by (simp add: list_all_iff)
  then show ?thesis by (rule normalize_starts_with_letter)
qed

lemma candidate_phrases_in_tables:
  "set (candidate_phrases focus pl) \<subseteq> set phrase_tables"
proof -
  have from_table: "set ps \<subseteq> set phrase_tables" if "(k, ps) \<in> set sample_phrases" for k ps
    using that by (force simp: phrase_tables_def)
  have "(''general'', general_phrases) \<in> set sample_phrases"
    by (simp add: sample_phrases_def)
  then have gen: "set general_phrases \<subseteq> set phrase_tables" by (rule from_table)
  have "set (base_phrases focus) \<subseteq> set phrase_tables"
  proof (cases "map_of sample_phrases focus")
    case None
    with gen show ?thesis by (simp add: base_phrases_def)
  next
    case (Some ps)
    then have "(focus, ps) \<in> set sample_phrases" by (rule map_of_SomeD)
    then have "set ps \<subseteq> set phrase_tables" by (rule from_table)
    with Some show ?thesis by (simp add: base_phrases_def)
  qed
  with gen length_filter_subset [of pl "base_phrases focus"] show ?thesis
    by (auto simp: candidate_phrases_def Let_def)
qed

lemma generated_phrase_in_tables:
  assumes "call_ai_api_for_phrase st r1 r2 = Inr pd"
  shows "phrase pd \<in> set phrase_tables"
proof -
  have topic: "x \<in> set phrase_tables"
    if "pick_topic topic_phrases ti = Some ps" "choice ps r2 = Inr x" for ti ps x
  proof -
    from that(1) obtain k where "(k, ps) \<in> set topic_phrases"
      using pick_topic_from_table by blast
    moreover from that(2) have "x \<in> set ps" by (rule choice_result_member)
    ultimately show ?thesis by (force simp: phrase_tables_def)
  qed
  have first: "x \<in> set phrase_tables"
    if "choice (candidate_phrases focus pl) r1 = Inr x" for focus pl x
    using choice_result_member [OF that] candidate_phrases_in_tables by blast
  from assms show ?thesis
    unfolding call_ai_api_for_phrase_def Let_def
    by (auto split: option.splits sum.splits if_splits dest: first topic)
qed

lemma generated_phrase_has_words:
  "call_ai_api_for_phrase st r1 r2 = Inr pd \<Longrightarrow> normalize (phrase pd) \<noteq> []"
  by (rule phrase_tables_have_words) (rule generated_phrase_in_tables)

lemma fallback_phrase_has_words:
  "pc \<in> set fallback_phrases \<Longrightarrow> normalize (fst pc) \<noteq> []"
  by (rule phrase_tables_have_words) (simp add: phrase_tables_def)




subsection \<open>Float division\<close>






subsection \<open>Recording commands\<close>

text \<open>
  C1, as stated (starting again while a recording is in progress is rejected and changes
  nothing), does not hold. In the state \<open>recording_app\<close> a recording is in progress and
  one chunk has been captured: \<open>start_recording\<close> empties \<open>audio_frames\<close> and starts a
  second record thread, and the record button, \<open>toggle_recording\<close>, ends the recording.
\<close>

theorem start_while_recording_counterexample:
  "is_recording recording_app \<and>
   audio_frames recording_app = [chunk_a] \<and>
   audio_frames (fst (start_recording recording_app)) = [] \<and>
   snd (start_recording recording_app) =
     [ConfigRecordBtn StopRecordingLook, StartThread RecordThread] \<and>
   is_recording (fst (toggle_recording True recording_app)) = False"
  by (simp add: example_states start_recording_def toggle_recording_def stop_recording_def)

text \<open>
  C1, amended: while a recording is in progress the record button never restarts the
  capture. \<open>toggle_recording\<close> keeps the accumulated audio frames and starts no thread;
  with the speech modules available, a model loaded and a phrase shown it stops the
  recording (only \<open>is_recording\<close> changes, to false), and otherwise it leaves the state
  as it is and shows one warning.
\<close>

theorem toggle_while_recording:
  assumes "is_recording s"
  shows "audio_frames (fst (toggle_recording av s)) = audio_frames s \<and>
         StartThread RecordThread \<notin> set (snd (toggle_recording av s)) \<and>
         (if av \<and> whisper_model s \<noteq> None \<and> current_phrase s \<noteq> []
          then toggle_recording av s = (s\<lparr>is_recording := False\<rparr>, [])
          else fst (toggle_recording av s) = s \<and>
               (\<exists>title msg. snd (toggle_recording av s) = [ShowWarning title msg]))"
  using assms by (simp add: toggle_recording_def stop_recording_def)

theorem toggle_while_recording_witness:
  "is_recording recording_app \<and>
   audio_frames (fst (toggle_recording True recording_app)) = [chunk_a] \<and>
   toggle_recording True recording_app = (recording_app\<lparr>is_recording := False\<rparr>, [])"
  using toggle_while_recording [of recording_app True]
  by (simp add: example_states)

text \<open>
  C3: when no recognizer model is loaded (\<open>whisper_model\<close> is \<open>None\<close>), the record button
  is rejected with one warning, "Model Loading" when the speech modules are available and
  "Feature Unavailable" when they are not, and the state is returned unchanged: no
  recording begins, no thread is started, the audio frames are untouched.
\<close>

theorem toggle_recording_without_model:
  assumes "whisper_model s = None"
  shows "toggle_recording av s =
           (s, [if av
                then ShowWarning ''Model Loading''
                       ''Whisper model is still loading. Please wait a moment.''
                else ShowWarning ''Feature Unavailable''
                       ''Speech recognition not available. Please install openai-whisper and pyaudio.''])"
  using assms by (simp add: toggle_recording_def)

theorem toggle_recording_without_model_witness:
  "whisper_model unloaded_app = None \<and>
   is_recording unloaded_app = False \<and>
   audio_frames unloaded_app = [] \<and>
   toggle_recording True unloaded_app =
     (unloaded_app,
      [ShowWarning ''Model Loading'' ''Whisper model is still loading. Please wait a moment.''])"
  using toggle_recording_without_model [of unloaded_app True]
  by (simp add: example_states)

subsection \<open>Background tasks\<close>

text \<open>
  C5, as stated (every background task carries the identifier of its Session and a
  completion with a stale identifier is discarded), does not hold: the code has no
  Session identifier. In the run below the record button is pressed to start, to stop and
  to start again while the first record thread, which has opened the stream and passed
  the test of its loop, waits for a chunk. Both starts perform the same effects, so
  nothing tells the two threads apart, and when the read of the first thread returns,
  its chunk, which belongs to the recording that was stopped, is appended to the frames
  of the new recording.
\<close>

theorem stale_record_thread_counterexample:
  "snd (toggle_recording True ready_app) =
     [ConfigRecordBtn StopRecordingLook, StartThread RecordThread] \<and>
   snd (toggle_recording True race_stopped) = snd (toggle_recording True ready_app) \<and>
   record_step (Inr []) RecOpening race_started =
     (RecTesting, race_started, [Print ''Recording started...'']) \<and>
   record_step (Inr []) RecTesting race_started = (RecReading, race_started, []) \<and>
   is_recording race_stopped = False \<and>
   is_recording race_restarted = True \<and>
   audio_frames race_restarted = [] \<and>
   record_step (Inr chunk_b) RecReading race_restarted = (RecTesting, race_late_chunk, []) \<and>
   audio_frames race_late_chunk = [chunk_b] \<and>
   race_late_chunk \<noteq> race_restarted"
  by (simp add: race_late_chunk_def race_restarted_def race_stopped_def
      race_started_def example_states toggle_recording_def start_recording_def
      stop_recording_def chunk_b_def)

text \<open>
  C5, amended: background tasks (phrase generation, recording) are dispatched without
  any Session identifier and no completion is discarded. The effects of
  \<open>generate_ai_phrase\<close> and of \<open>start_recording\<close> are the same in every state; the event
  loop runs \<open>update_phrase_ui\<close> on whatever phrase completion arrives, and it installs
  the phrase and the rationale of that completion; a record thread whose read returns
  appends the chunk to \<open>audio_frames\<close> in every state, without testing \<open>is_recording\<close>
  again.
\<close>

theorem completions_are_not_filtered:
  "snd (generate_ai_phrase s) = snd (generate_ai_phrase s') \<and>
   snd (start_recording s) = snd (start_recording s') \<and>
   run_callback (UpdatePhraseUI pd) s = update_phrase_ui pd s \<and>
   fst (update_phrase_ui pd s) =
     s\<lparr>current_phrase := phrase pd, current_context := explanation pd\<rparr> \<and>
   record_step (Inr data) RecReading s =
     (RecTesting, s\<lparr>audio_frames := audio_frames s @ [data]\<rparr>, [])"
  by (simp add: generate_ai_phrase_def start_recording_def update_phrase_ui_def
      run_callback_def)

theorem completions_are_not_filtered_witness:
  "record_step (Inr chunk_b) RecReading recording_app =
     (RecTesting, recording_app\<lparr>audio_frames := [chunk_a, chunk_b]\<rparr>, []) \<and>
   current_phrase (fst (run_callback
      (UpdatePhraseUI \<lparr>phrase = ''Unique New York.'', explanation = ''stale''\<rparr>)
      recording_app)) = ''Unique New York.''"
  using completions_are_not_filtered
    [of recording_app recording_app
      "\<lparr>phrase = ''Unique New York.'', explanation = ''stale''\<rparr>" chunk_b]
  by (simp add: example_states)

subsection \<open>Phrase generation\<close>

text \<open>
  C4: whenever the phrase call \<open>call_ai_api_for_phrase\<close> fails, the generation thread
  logs the failure to the console, picks one of the three built-in fallback phrases and
  posts it, with its rationale, to the interface through \<open>update_phrase_ui\<close>. These are
  all its effects: no message box is shown and no exception leaves the thread.
\<close>

theorem generate_phrase_thread_recovers:
  assumes "call_ai_api_for_phrase st r1 r2 = Inl e"
  shows "\<exists>pc \<in> set fallback_phrases.
           fst pc \<noteq> [] \<and>
           generate_phrase_thread st r1 r2 r3 =
             [PrintError ''Error generating phrase: '' e,
              After 0 (UpdatePhraseUI \<lparr>phrase = fst pc, explanation = snd pc\<rparr>)]"
proof -
  have "fallback_phrases \<noteq> []" by (simp add: fallback_phrases_def)
  then obtain pc where pc: "pc \<in> set fallback_phrases" "choice fallback_phrases r3 = Inr pc"
    using choice_member by blast
  from pc(1) have "fst pc \<noteq> []" by (auto simp: fallback_phrases_def)
  with pc assms show ?thesis by (auto simp: generate_phrase_thread_def)
qed

theorem generate_phrase_thread_recovers_witness:
  "call_ai_api_for_phrase incomplete_settings 0 0 = Inl (KeyError ''focus_area'') \<and>
   generate_phrase_thread incomplete_settings 0 0 1 =
     [PrintError ''Error generating phrase: '' (KeyError ''focus_area''),
      After 0 (UpdatePhraseUI
        \<lparr>phrase = fst (fallback_phrases ! 1), explanation = snd (fallback_phrases ! 1)\<rparr>)] \<and>
   fst (fallback_phrases ! 1) = ''She sells seashells by the seashore.''"
proof -
  have fails: "call_ai_api_for_phrase incomplete_settings 0 0 = Inl (KeyError ''focus_area'')"
    by (simp add: call_ai_api_for_phrase_def incomplete_settings_def)
  have picked: "choice fallback_phrases 1 = Inr (fallback_phrases ! 1)"
    by (simp add: choice_def fallback_phrases_def)
  from generate_phrase_thread_recovers [OF fails, of 1]
  show ?thesis using fails picked
    by (auto simp: generate_phrase_thread_def) (simp add: fallback_phrases_def)
qed



subsection \<open>Scorer\<close>

text \<open>
  C2: for every target phrase that has at least one word after normalization, and every
  transcript equal to it up to letter case and punctuation, the Scorer returns exactly
  100, whatever it returns for targets without words. Every phrase that phrase
  generation can produce has a word (\<open>generated_phrase_has_words\<close>,
  \<open>fallback_phrase_has_words\<close>), and the record button refuses an empty phrase.
\<close>

theorem scorer_identical_is_100:
  assumes "same_up_to_case_punct target transcript"
    and "normalize target \<noteq> []"
  shows "scorer wordless target transcript = 100"
proof -
  have same: "normalize transcript = normalize target"
    using assms(1) by (simp add: normalize_same)
  have "0 < int (length (normalize target))" using assms(2) by simp
  then have "(200 * int (length (normalize target)) + int (length (normalize target)))
      div (2 * int (length (normalize target))) = 100"
    by (rule full_match_percentage)
  with assms(2) same show ?thesis
    by (simp add: scorer_def Let_def lcs_same)
qed

theorem scorer_identical_is_100_witness:
  "same_up_to_case_punct ''She sells seashells by the seashore.''
     ''SHE sells, seashells by the Seashore!'' \<and>
   normalize ''She sells seashells by the seashore.'' =
     [''she'', ''sells'', ''seashells'', ''by'', ''the'', ''seashore''] \<and>
   scorer 0 ''She sells seashells by the seashore.''
     ''SHE sells, seashells by the Seashore!'' = 100"
proof -
  have same: "same_up_to_case_punct ''She sells seashells by the seashore.''
     ''SHE sells, seashells by the Seashore!''"
    by code_simp
  have ws: "normalize ''She sells seashells by the seashore.'' =
     [''she'', ''sells'', ''seashells'', ''by'', ''the'', ''seashore'']"
    by code_simp
  then have "normalize ''She sells seashells by the seashore.'' \<noteq> []" by simp
  from scorer_identical_is_100 [OF same this] same ws show ?thesis by blast
qed

subsection \<open>Settings, profile and persistence\<close>

text \<open>
  C7, as stated (a change of the model size invalidates the handle and reloads the model
  asynchronously, on a background context), does not hold: \<open>update_setting\<close> calls
  \<open>load_whisper_model\<close> itself. With a loader that succeeds, the new model is already in
  place when \<open>update_setting\<close> returns, and its effects are the status label and the two
  console lines of the load; no thread is started.
\<close>

theorem update_setting_reload_counterexample:
  "whisper_model (fst (fst (update_setting True (Inr \<circ> Model) ''whisper_model_size'' ''small''
      (ready_app, empty_disk)))) = Some (Model ''small'') \<and>
   snd (update_setting True (Inr \<circ> Model) ''whisper_model_size'' ''small''
      (ready_app, empty_disk)) =
     [ConfigModelStatusLabel LoadingNewModelLook,
      Print ''Loading Whisper model... This may take a moment on first run.'',
      Print (''Whisper model '' @ [CHR 0x27] @ ''small'' @ [CHR 0x27] @
             '' loaded successfully!'')]"
  by (simp add: update_setting_def load_whisper_model_def save_data_def example_states
      empty_disk_def Let_def)

text \<open>
  C7, amended: whenever the model-size setting is set and the speech modules are
  available, \<open>update_setting\<close> stores the new size, invalidates the model handle and
  loads the model of the new size synchronously, before it saves and returns: on return
  the handle is the model the loader gave, or \<open>None\<close> when the loader raised, and no
  thread has been started. The recording flag, the audio frames, the phrase and the
  profile are left as they were.
\<close>

theorem update_setting_reloads_in_place:
  "(let r = update_setting True load ''whisper_model_size'' val (s, fs);
        s' = fst (fst r)
    in whisper_model s' = (case load val of Inr m \<Rightarrow> Some m | Inl e \<Rightarrow> None) \<and>
       settings s' = (settings s)(''whisper_model_size'' \<mapsto> val) \<and>
       StartThread GeneratePhraseThread \<notin> set (snd r) \<and>
       StartThread RecordThread \<notin> set (snd r) \<and>
       StartThread SpeakThread \<notin> set (snd r) \<and>
       is_recording s' = is_recording s \<and>
       audio_frames s' = audio_frames s \<and>
       current_phrase s' = current_phrase s \<and>
       current_context s' = current_context s \<and>
       user_data s' = user_data s)"
  by (cases "load val")
     (simp_all add: update_setting_def load_whisper_model_def save_data_def Let_def
        split: option.splits)

theorem update_setting_reloads_in_place_witness:
  "whisper_model (fst (fst (update_setting True (Inl \<circ> LoadModelError)
      ''whisper_model_size'' ''medium'' (recording_app, empty_disk)))) = None \<and>
   is_recording (fst (fst (update_setting True (Inl \<circ> LoadModelError)
      ''whisper_model_size'' ''medium'' (recording_app, empty_disk))))"
  using update_setting_reloads_in_place
    [of "Inl \<circ> LoadModelError" "''medium''" recording_app empty_disk]
  by (simp add: Let_def example_states)

text \<open>
  C10: every call of \<open>update_setting\<close>, for any key and value, with or without the speech
  modules, ends in \<open>save_data\<close>, which writes the data file first and the settings file
  second. When neither write raises, the data file then holds the in-memory user data,
  which the call has not changed, and the settings file holds the updated settings.
  The data file is written whenever its own write does not raise.
\<close>

theorem update_setting_writes_both_files:
  "(data_write fs = None \<longrightarrow>
      data_store (snd (fst (update_setting av load key val (s, fs)))) = Holds (user_data s)) \<and>
   (data_write fs = None \<and> settings_write fs = None \<longrightarrow>
      settings_store (snd (fst (update_setting av load key val (s, fs)))) =
        Holds ((settings s)(key \<mapsto> val))) \<and>
   user_data (fst (fst (update_setting av load key val (s, fs)))) = user_data s"
  by (cases "load val")
     (simp_all add: update_setting_def load_whisper_model_def save_data_def Let_def
        split: option.splits)

theorem update_setting_writes_both_files_witness:
  "data_write empty_disk = None \<and> settings_write empty_disk = None \<and>
   data_store empty_disk = Absent \<and>
   data_store (snd (fst (update_setting False (Inr \<circ> Model) ''topic_interest'' ''sports''
      (ready_app, empty_disk)))) = Holds stored_profile \<and>
   settings_store (snd (fst (update_setting False (Inr \<circ> Model) ''topic_interest'' ''sports''
      (ready_app, empty_disk)))) = Holds (default_settings(''topic_interest'' \<mapsto> ''sports''))"
  using update_setting_writes_both_files
    [of empty_disk False "Inr \<circ> Model" "''topic_interest''" "''sports''" ready_app]
  by (simp add: example_states empty_disk_def)

text \<open>
  C9: an absent file does not make loading fail. When both files are absent,
  \<open>load_data\<close> returns the default profile (no sessions, no scores, 0 sessions, best
  score 0) and the default settings (focus area general, difficulty beginner, empty
  topic interest, phrase length medium, model size base, and no other key); when one
  file is absent and the other one is read, the absent one is replaced by its default.
\<close>

theorem load_data_defaults:
  "(data_store fs = Absent \<and> settings_store fs = Absent \<longrightarrow>
      load_data fs = Inr (default_user_data, default_settings)) \<and>
   (data_store fs = Absent \<and> settings_store fs = Holds st \<longrightarrow>
      load_data fs = Inr (default_user_data, st)) \<and>
   (data_store fs = Holds ud \<and> settings_store fs = Absent \<longrightarrow>
      load_data fs = Inr (ud, default_settings)) \<and>
   sessions default_user_data = [] \<and> scores default_user_data = [] \<and>
   total_sessions default_user_data = 0 \<and> best_score default_user_data = 0 \<and>
   default_settings ''focus_area'' = Some ''general'' \<and>
   default_settings ''difficulty_level'' = Some ''beginner'' \<and>
   default_settings ''topic_interest'' = Some [] \<and>
   default_settings ''phrase_length'' = Some ''medium'' \<and>
   default_settings ''whisper_model_size'' = Some ''base'' \<and>
   dom default_settings =
     {''focus_area'', ''difficulty_level'', ''topic_interest'', ''phrase_length'',
      ''whisper_model_size''}"
proof -
  have "dom default_settings =
     {''focus_area'', ''difficulty_level'', ''topic_interest'', ''phrase_length'',
      ''whisper_model_size''}"
    unfolding default_settings_def by (simp only: dom_fun_upd dom_empty) auto
  then show ?thesis
    by (simp add: load_data_def read_or_default_def default_user_data_def default_settings_def)
qed

theorem load_data_defaults_witness:
  "data_store empty_disk = Absent \<and> settings_store empty_disk = Absent \<and>
   load_data empty_disk = Inr (default_user_data, default_settings)"
  using load_data_defaults [of empty_disk]
  by (simp add: empty_disk_def)




end
